theory Spec2Isabelle
  imports Complex_Main
begin

section \<open>Data model\<close>

text \<open>
  The settlement core of the auction marketplace: the controllers for bids, auctions,
  escrows, delivery confirmations and disputes, as they are written in the JavaScript
  sources. The persistent store is a record of collections. A document's identifier is
  its position in its collection (a created document is appended, so identifiers are
  unique and a collection is read in insertion order); a deleted bid leaves \<open>None\<close>
  at its position. Token amounts are JavaScript numbers; they are modelled as reals
  (exact arithmetic, no rounding and no NaN). Times are integers, milliseconds since
  the epoch. An \<open>undefined\<close> field is \<open>None\<close>.

  Each controller is a module of its own, with the names its \<open>import\<close> lines bind.
  A name that a module neither imports nor declares is unbound in it: the statement that
  reads it throws a \<open>ReferenceError\<close>.

  A write made with a session is stored when the session's transaction commits and is
  dropped when it aborts; a write made without a session is stored at once.
\<close>

record user =
  balance :: real
  escrowedBalance :: "real option"

record auction =
  vendor :: nat
  startingPrice :: real
  currentPrice :: real
  highestBidder :: "nat option"
  bidCount :: nat
  endTime :: int
  isActive :: bool
  isDigital :: bool
  winningBidAmount :: "real option"
  endedAt :: "int option"
  winnerConfirmed :: bool
  vendorPaid :: bool

datatype bid_status = Bid_pending | Bid_active

record bid =
  bid_auction :: nat
  bidder :: nat
  amount :: real
  bid_status :: bid_status
  createdAt :: int
  isWinningBid :: bool
  flaggedForReview :: bool
  isRetracted :: bool
  retractionPenalty :: "real option"

datatype escrow_status = HELD | RELEASED | REFUNDED | DISPUTED

datatype release_reason = DELIVERY_CONFIRMED | DISPUTE_RESOLVED | DISPUTE_RESOLUTION

record escrow =
  esc_auction :: nat
  esc_buyer :: nat
  esc_vendor :: nat
  tokenAmount :: real
  esc_status :: escrow_status
  releaseReason :: "release_reason option"
  releasedAt :: "int option"

datatype delivery_status =
  PENDING_SHIPMENT | PENDING_DELIVERY | SHIPPED | DELIVERED | DELIVERY_DISPUTED | CANCELLED

record confirmation =
  dc_auction :: nat
  dc_vendor :: nat
  dc_buyer :: nat
  dc_status :: delivery_status
  deliveredAt :: "int option"

datatype dispute_status = OPEN | UNDER_REVIEW | RESOLVED

record dispute =
  dp_auction :: nat
  dp_transaction :: nat
  raisedBy :: nat
  against :: nat
  dp_status :: dispute_status

datatype tx_type =
  ESCROW_HOLD | PAYOUT_VENDOR | PLATFORM_FEE | ESCROW_REFUND
  | DISPUTE_PARTIAL_REFUND | DISPUTE_PARTIAL_PAYOUT

datatype tx_status = PENDING | SUCCESS

record token_tx =
  tx_user :: nat
  tx_type :: tx_type
  tx_amount :: real
  tx_status :: tx_status
  linkedAuction :: "nat option"
  linkedEscrow :: "nat option"
  isFrozen :: bool

record db =
  users :: "user list"
  auctions :: "auction list"
  bids :: "bid option list"
  escrows :: "escrow list"
  confirmations :: "confirmation list"
  disputes :: "dispute list"
  ledger :: "token_tx list"

text \<open>
  What a handler answers when it does not succeed: the status and message of the
  response for a request handler, the thrown \<open>Error\<close> for a helper.
\<close>

datatype error =
  BiddingClosed
  | UserNotFound
  | BidTooLow real
  | InsufficientBalance
  | BidTooFast
  | BidFailed
  | BidNotFound
  | NotYourBid
  | RetractAfterEnd
  | RetractionFailed
  | AuctionNotFound
  | AuctionAlreadyClosed
  | AuctionNotEnded
  | CloseFailed
  | NotAuctionWinner
  | ServerError
  | InvalidAuctionState
  | NoActiveEscrow
  | EscrowNotFoundOrReleased
  | NothingToConfirm
  | ConfirmationFailed
  | NotAParty
  | NoEscrowToDispute
  | DisputeWindowClosed
  | DisputeFailed
  | CannotDispute
  | TypeError
  | ReferenceError
  | NoResponse
  | IOError

text \<open>
  The awaited calls of \<open>placeBid\<close> and \<open>closeAuction\<close> that can reject (a failed
  write, a failed commit, a notification that is not delivered). A run is given the
  set of the calls that reject in it.
\<close>

datatype io_point =
  Bid_create
  | User_save
  | Auction_save
  | Bid_update
  | Session_commit
  | Balance_read
  | Bid_delete
  | SetWinningBid
  | Escrow_create
  | Hold_entry_create
  | Confirmation_create
  | Confirmation_notify
  | Fee_entry_create
  | Close_notify

section \<open>Modules and the names they bind\<close>

text \<open>
  The controllers and, of \<open>mongoose\<close> and the model classes, the names each of them
  imports. \<open>bidController.js\<close> imports \<open>Bid\<close>, \<open>Auction\<close> and \<open>User\<close>;
  \<open>auctionController.js\<close> imports \<open>Auction\<close>, \<open>User\<close> and
  \<open>TokenTransaction\<close>; the escrow controller imports \<open>Escrow\<close>,
  \<open>TokenTransaction\<close>, \<open>User\<close>, \<open>Auction\<close> and \<open>DeliveryConfirmation\<close>;
  \<open>deliveryConfirmationController.js\<close> imports \<open>mongoose\<close>,
  \<open>DeliveryConfirmation\<close>, \<open>Auction\<close>, \<open>TokenTransaction\<close> and \<open>User\<close>; the
  dispute controller imports \<open>Dispute\<close>, \<open>Escrow\<close> and \<open>Auction\<close>. Of the
  operations below, \<open>finalizeBidPlacement\<close>, \<open>closeAuction\<close>, \<open>raiseDispute\<close> and
  \<open>partialResolution\<close> read a name their module does not bind; the others read
  bound names only.
\<close>

datatype controller =
  BidController | AuctionController | EscrowController | DeliveryConfirmationController
  | DisputeController

datatype ident =
  Mongoose | Bid_model | Auction_model | User_model | Escrow_model | TokenTransaction_model
  | DeliveryConfirmation_model | Dispute_model

fun imported :: "controller \<Rightarrow> ident list" where
  "imported BidController = [Bid_model, Auction_model, User_model]"
| "imported AuctionController = [Auction_model, User_model, TokenTransaction_model]"
| "imported EscrowController =
     [Escrow_model, TokenTransaction_model, User_model, Auction_model,
      DeliveryConfirmation_model]"
| "imported DeliveryConfirmationController =
     [Mongoose, DeliveryConfirmation_model, Auction_model, TokenTransaction_model, User_model]"
| "imported DisputeController = [Dispute_model, Escrow_model, Auction_model]"

definition binds :: "controller \<Rightarrow> ident \<Rightarrow> bool" where
  "binds c x = (x \<in> set (imported c))"

section \<open>Queries\<close>

definition findById :: "'a list \<Rightarrow> nat \<Rightarrow> 'a option" where
  "findById xs i = (if i < length xs then Some (xs ! i) else None)"

definition findBid :: "db \<Rightarrow> nat \<Rightarrow> bid option" where
  "findBid d i = (if i < length (bids d) then bids d ! i else None)"

text \<open>The documents of a collection that match a filter, each with its identifier.\<close>

definition matching :: "('a \<Rightarrow> bool) \<Rightarrow> 'a list \<Rightarrow> (nat \<times> 'a) list" where
  "matching P xs = filter (\<lambda>p. P (snd p)) (zip [0 ..< length xs] xs)"

fun present :: "(nat \<times> 'a option) list \<Rightarrow> (nat \<times> 'a) list" where
  "present [] = []"
| "present ((i, None) # xs) = present xs"
| "present ((i, Some x) # xs) = (i, x) # present xs"

definition matchingBids :: "(bid \<Rightarrow> bool) \<Rightarrow> db \<Rightarrow> (nat \<times> bid) list" where
  "matchingBids P d =
     filter (\<lambda>p. P (snd p)) (present (zip [0 ..< length (bids d)] (bids d)))"

definition findOne :: "('a \<Rightarrow> bool) \<Rightarrow> 'a list \<Rightarrow> (nat \<times> 'a) option" where
  "findOne P xs = (case matching P xs of [] \<Rightarrow> None | p # _ \<Rightarrow> Some p)"

text \<open>
  \<open>findOne(...).sort({amount: -1})\<close>: a bid of the greatest amount; among equal
  amounts, the first in the collection.
\<close>

fun highestOf :: "(nat \<times> bid) list \<Rightarrow> (nat \<times> bid) option" where
  "highestOf [] = None"
| "highestOf (p # ps) =
     (case highestOf ps of
        None \<Rightarrow> Some p
      | Some q \<Rightarrow> if amount (snd p) < amount (snd q) then Some q else Some p)"

text \<open>\<open>findOne(...).sort({createdAt: -1})\<close>: a bid created last.\<close>

fun latestOf :: "(nat \<times> bid) list \<Rightarrow> (nat \<times> bid) option" where
  "latestOf [] = None"
| "latestOf (p # ps) =
     (case latestOf ps of
        None \<Rightarrow> Some p
      | Some q \<Rightarrow> if createdAt (snd p) < createdAt (snd q) then Some q else Some p)"

section \<open>Bid engine\<close>

text \<open>
  \<open>retractBid\<close>. The bid, its auction and its bidder are read first; a missing
  auction or bidder is a \<open>TypeError\<close> where the handler first reads a field of it,
  which the handler answers with status 500. The bid is saved before the bidder is
  credited. The JavaScript \<open>x || y\<close> on a number takes \<open>y\<close> when \<open>x\<close> is 0.
\<close>

record retract_result =
  refunded :: real
  penaltyApplied :: real

definition retractBid :: "int \<Rightarrow> nat \<Rightarrow> nat \<Rightarrow> db \<Rightarrow> (error + retract_result) \<times> db" where
  "retractBid now bidId requester d =
     (case findBid d bidId of
        None \<Rightarrow> (Inl BidNotFound, d)
      | Some b \<Rightarrow>
          if bidder b \<noteq> requester then (Inl NotYourBid, d)
          else
            (case findById (auctions d) (bid_auction b) of
               None \<Rightarrow> (Inl RetractionFailed, d)
             | Some a \<Rightarrow>
                 if endTime a < now then (Inl RetractAfterEnd, d)
                 else
                   let penalty = max (amount b * 0.1) 0.5;
                       d1 = d\<lparr>bids := (bids d)
                              [bidId := Some (b\<lparr>isRetracted := True,
                                                retractionPenalty := Some penalty\<rparr>)]\<rparr>
                   in
                     (case findById (users d1) (bidder b) of
                        None \<Rightarrow> (Inl RetractionFailed, d1)
                      | Some u \<Rightarrow>
                          let d2 = d1\<lparr>users := (users d1)
                                     [bidder b := u\<lparr>balance := balance u + (amount b - penalty)\<rparr>]\<rparr>;
                              r = \<lparr>refunded = amount b - penalty, penaltyApplied = penalty\<rparr>
                          in
                            if highestBidder a = Some (bidder b)
                            then
                              let newHighestBid =
                                    highestOf (matchingBids
                                      (\<lambda>x. bid_auction x = bid_auction b \<and> \<not> isRetracted x) d2);
                                  a' = a\<lparr>currentPrice :=
                                           (case newHighestBid of
                                              None \<Rightarrow> startingPrice a
                                            | Some h \<Rightarrow>
                                                if amount (snd h) = 0 then startingPrice a
                                                else amount (snd h)),
                                         highestBidder := map_option (\<lambda>h. bidder (snd h)) newHighestBid\<rparr>
                              in (Inr r, d2\<lparr>auctions := (auctions d2)[bid_auction b := a']\<rparr>)
                            else (Inr r, d2))))"

text \<open>
  \<open>escrowBidTokens\<close>: the bidder is read again; \<open>amount\<close> moves from the balance
  to the escrowed balance (\<open>undefined\<close> counts as 0) and the account is saved. The save
  is not part of any transaction.
\<close>

definition escrowBidTokens :: "(io_point \<Rightarrow> bool) \<Rightarrow> bid \<Rightarrow> db \<Rightarrow> error + db" where
  "escrowBidTokens F b d =
     (case findById (users d) (bidder b) of
        None \<Rightarrow> Inl TypeError
      | Some u \<Rightarrow>
          if F User_save then Inl IOError
          else Inr (d\<lparr>users := (users d)
                 [bidder b := u\<lparr>escrowedBalance :=
                                   Some ((case escrowedBalance u of None \<Rightarrow> 0 | Some e \<Rightarrow> e)
                                         + amount b),
                                 balance := balance u - amount b\<rparr>]\<rparr>))"

text \<open>
  \<open>finalizeBidPlacement\<close>. Its first statement, \<open>mongoose.startSession()\<close>, stands
  before the \<open>try\<close> and reads \<open>mongoose\<close>, which \<open>bidController.js\<close> does not
  bind: the function throws there and nothing after it runs. What follows in the
  function: in one transaction, the anti-sniping extension (less than 30 seconds left:
  the end moves to 30 seconds from now), the auction's price, highest bidder and bid
  count, and the bid's status. A write or the commit that rejects aborts the
  transaction: nothing of it is stored. The bidder's balance is read after the commit.
\<close>

record finalized =
  newPrice :: real
  extendedEndTime :: "int option"
  userBalance :: real

definition finalizeBidPlacement ::
  "(io_point \<Rightarrow> bool) \<Rightarrow> int \<Rightarrow> nat \<Rightarrow> bid \<Rightarrow> db \<Rightarrow> (error + finalized) \<times> db" where
  "finalizeBidPlacement F now bidId b d =
     (if \<not> binds BidController Mongoose then (Inl ReferenceError, d)
      else case findById (auctions d) (bid_auction b) of
        None \<Rightarrow> (Inl AuctionNotFound, d)
      | Some a \<Rightarrow>
          let ext = (if endTime a - now < 30 * 1000 then Some (now + 30 * 1000) else None);
              a' = a\<lparr>endTime := (case ext of None \<Rightarrow> endTime a | Some t \<Rightarrow> t),
                     currentPrice := amount b,
                     highestBidder := Some (bidder b),
                     bidCount := bidCount a + 1\<rparr>
          in
            if F Auction_save \<or> F Bid_update \<or> F Session_commit then (Inl IOError, d)
            else
              let d' = d\<lparr>auctions := (auctions d)[bid_auction b := a'],
                         bids := (if bidId < length (bids d)
                                  then (bids d)[bidId :=
                                         map_option (\<lambda>x. x\<lparr>bid_status := Bid_active\<rparr>)
                                           (bids d ! bidId)]
                                  else bids d)\<rparr>
              in
                if F Balance_read then (Inl IOError, d')
                else
                  (case findById (users d') (bidder b) of
                     None \<Rightarrow> (Inl TypeError, d')
                   | Some u \<Rightarrow>
                       (Inr \<lparr>newPrice = amount b, extendedEndTime = ext,
                              userBalance = balance u\<rparr>, d')))"

text \<open>
  \<open>placeBid\<close>. The checks, in the handler's order; then the pending bid is created
  (\<open>flaggedForReview\<close> compares with \<open>FRAUD_RULES.SUSPICIOUS_JUMP_MULTIPLIER\<close>,
  which \<open>FRAUD_RULES\<close> does not have: the comparison with \<open>NaN\<close> is false), the
  tokens are escrowed and the placement is finalized. The handler's \<open>catch\<close> deletes
  the bid it created and answers status 500.
\<close>

record bid_response =
  resp_bidId :: nat
  resp_newPrice :: real
  resp_extendedEndTime :: "int option"
  remainingBalance :: real
  escrowedAmount :: real

definition cleanupBid :: "(io_point \<Rightarrow> bool) \<Rightarrow> nat \<Rightarrow> db \<Rightarrow> db" where
  "cleanupBid F bidId d =
     (if F Bid_delete then d else d\<lparr>bids := (bids d)[bidId := None]\<rparr>)"

definition placeBid ::
  "(io_point \<Rightarrow> bool) \<Rightarrow> int \<Rightarrow> nat \<Rightarrow> nat \<Rightarrow> real \<Rightarrow> db \<Rightarrow> (error + bid_response) \<times> db" where
  "placeBid F now auctionId userId amt d =
     (case findById (auctions d) auctionId of
        None \<Rightarrow> (Inl BiddingClosed, d)
      | Some a \<Rightarrow>
          if \<not> isActive a then (Inl BiddingClosed, d)
          else if endTime a < now then (Inl BiddingClosed, d)
          else
            (case findById (users d) userId of
               None \<Rightarrow> (Inl UserNotFound, d)
             | Some u \<Rightarrow>
                 let minValidBid = currentPrice a * (1 + 0.05) in
                 if amt < minValidBid then (Inl (BidTooLow minValidBid), d)
                 else if balance u < amt then (Inl InsufficientBalance, d)
                 else if (case latestOf (matchingBids
                                 (\<lambda>x. bidder x = userId \<and> bid_auction x = auctionId) d) of
                            None \<Rightarrow> False
                          | Some lastUserBid \<Rightarrow> now - createdAt (snd lastUserBid) < 5000)
                 then (Inl BidTooFast, d)
                 else if F Bid_create then (Inl BidFailed, d)
                 else
                   let bidId = length (bids d);
                       b = \<lparr>bid_auction = auctionId, bidder = userId, amount = amt,
                            bid_status = Bid_pending, createdAt = now, isWinningBid = False,
                            flaggedForReview = False, isRetracted = False,
                            retractionPenalty = None\<rparr>;
                       d1 = d\<lparr>bids := bids d @ [Some b]\<rparr>
                   in
                     (case escrowBidTokens F b d1 of
                        Inl e \<Rightarrow> (Inl BidFailed, cleanupBid F bidId d1)
                      | Inr d2 \<Rightarrow>
                          (case finalizeBidPlacement F now bidId b d2 of
                             (Inl e, d3) \<Rightarrow> (Inl BidFailed, cleanupBid F bidId d3)
                           | (Inr fin, d3) \<Rightarrow>
                               (Inr \<lparr>resp_bidId = bidId, resp_newPrice = newPrice fin,
                                      resp_extendedEndTime = extendedEndTime fin,
                                      remainingBalance = userBalance fin,
                                      escrowedAmount = amt\<rparr>, d3)))))"

text \<open>
  \<open>setWinningBid\<close>: the bid of the greatest amount among all the bids of the auction
  (the query has no other filter); every bid of the auction is marked non-winning in
  the store, then the found bid is marked winning, saved and returned. The save writes
  the fields that were changed on the document: when the found bid was read with the
  mark already set, setting it again changes nothing and nothing is written, so the
  mark stays cleared in the store. Without a bid the function returns \<open>null\<close>.
\<close>

definition setWinningBid :: "nat \<Rightarrow> db \<Rightarrow> (nat \<times> bid) option \<times> db" where
  "setWinningBid auctionId d =
     (case highestOf (matchingBids (\<lambda>b. bid_auction b = auctionId) d) of
        None \<Rightarrow> (None, d)
      | Some (i, w) \<Rightarrow>
          let bs = map (map_option
                     (\<lambda>b. if bid_auction b = auctionId then b\<lparr>isWinningBid := False\<rparr> else b))
                     (bids d);
              w' = w\<lparr>isWinningBid := True\<rparr>
          in (Some (i, w'),
              d\<lparr>bids := (if isWinningBid w then bs else bs[i := Some w'])\<rparr>))"

section \<open>Escrow manager\<close>

text \<open>
  \<open>populate\<close> of a reference gives \<open>null\<close> when the referenced user does not
  exist. \<open>$inc\<close> on a user that does not exist changes nothing. \<open>updateOne\<close>
  changes the first document that matches.
\<close>

definition populate :: "user list \<Rightarrow> nat option \<Rightarrow> nat option" where
  "populate us r = (case r of None \<Rightarrow> None | Some i \<Rightarrow> if i < length us then Some i else None)"

definition credit :: "nat \<Rightarrow> real \<Rightarrow> user list \<Rightarrow> user list" where
  "credit i x us = (if i < length us then us[i := (us ! i)\<lparr>balance := balance (us ! i) + x\<rparr>] else us)"

definition updateOne :: "('a \<Rightarrow> bool) \<Rightarrow> ('a \<Rightarrow> 'a) \<Rightarrow> 'a list \<Rightarrow> 'a list" where
  "updateOne P f xs = (case findOne P xs of None \<Rightarrow> xs | Some (i, x) \<Rightarrow> xs[i := f x])"


text \<open>
  \<open>releaseToVendor\<close> and \<open>refundToBuyer\<close> look for an escrow of the auction with
  status \<open>HELD\<close>. The auction is read for the notifications' title only, after the
  writes: without it the call throws a \<open>TypeError\<close> there.
  Here and in the other operations, a notification is taken as delivered unless it is
  one of the two named in \<open>io_point\<close>, and every clock reading of one call is the
  one time \<open>now\<close>.
\<close>

definition releaseToVendor :: "int \<Rightarrow> nat \<Rightarrow> db \<Rightarrow> (error + nat \<times> escrow) \<times> db" where
  "releaseToVendor now auctionId d =
     (case findOne (\<lambda>e. esc_auction e = auctionId \<and> esc_status e = HELD) (escrows d) of
        None \<Rightarrow> (Inl NoActiveEscrow, d)
      | Some (eid, e) \<Rightarrow>
          let platformFee = tokenAmount e * 0.1;
              vendorAmount = tokenAmount e - platformFee;
              e' = e\<lparr>esc_status := RELEASED, releaseReason := Some DELIVERY_CONFIRMED,
                     releasedAt := Some now\<rparr>;
              d' = d\<lparr>escrows := (escrows d)[eid := e'],
                     users := credit (esc_vendor e) vendorAmount (users d),
                     ledger := ledger d @
                       [\<lparr>tx_user = esc_vendor e, tx_type = PAYOUT_VENDOR, tx_amount = vendorAmount,
                         tx_status = SUCCESS, linkedAuction = Some auctionId,
                         linkedEscrow = Some eid, isFrozen = False\<rparr>,
                        \<lparr>tx_user = esc_vendor e, tx_type = PLATFORM_FEE, tx_amount = platformFee,
                         tx_status = SUCCESS, linkedAuction = Some auctionId,
                         linkedEscrow = None, isFrozen = False\<rparr>]\<rparr>
          in
            (case findById (auctions d) auctionId of
               None \<Rightarrow> (Inl TypeError, d')
             | Some a \<Rightarrow> (Inr (eid, e'), d')))"

definition refundToBuyer :: "int \<Rightarrow> nat \<Rightarrow> release_reason \<Rightarrow> db \<Rightarrow> (error + nat \<times> escrow) \<times> db" where
  "refundToBuyer now auctionId reason d =
     (case findOne (\<lambda>e. esc_auction e = auctionId \<and> esc_status e = HELD) (escrows d) of
        None \<Rightarrow> (Inl NoActiveEscrow, d)
      | Some (eid, e) \<Rightarrow>
          let e' = e\<lparr>esc_status := REFUNDED, releaseReason := Some reason,
                     releasedAt := Some now\<rparr>;
              d' = d\<lparr>escrows := (escrows d)[eid := e'],
                     users := credit (esc_buyer e) (tokenAmount e) (users d),
                     ledger := ledger d @
                       [\<lparr>tx_user = esc_buyer e, tx_type = ESCROW_REFUND, tx_amount = tokenAmount e,
                         tx_status = SUCCESS, linkedAuction = Some auctionId,
                         linkedEscrow = Some eid, isFrozen = False\<rparr>]\<rparr>
          in
            (case findById (auctions d) auctionId of
               None \<Rightarrow> (Inl TypeError, d')
             | Some a \<Rightarrow> (Inr (eid, e'), d')))"

text \<open>
  \<open>releaseEscrow\<close> works in the caller's transaction: it returns the state the
  transaction sees, or throws. Its notifications are sent later and their failure is
  caught. Both ledger entries name the escrow.
\<close>

definition releaseEscrow :: "int \<Rightarrow> nat \<Rightarrow> db \<Rightarrow> error + db" where
  "releaseEscrow now auctionId d =
     (case findOne (\<lambda>e. esc_auction e = auctionId \<and> esc_status e = HELD) (escrows d) of
        None \<Rightarrow> Inl NoActiveEscrow
      | Some (eid, e) \<Rightarrow>
          let platformFee = tokenAmount e * 0.1;
              vendorAmount = tokenAmount e - platformFee
          in Inr (d\<lparr>escrows := (escrows d)
                      [eid := e\<lparr>esc_status := RELEASED,
                                releaseReason := Some DELIVERY_CONFIRMED,
                                releasedAt := Some now\<rparr>],
                    users := credit (esc_vendor e) vendorAmount (users d),
                    ledger := ledger d @
                      [\<lparr>tx_user = esc_vendor e, tx_type = PAYOUT_VENDOR, tx_amount = vendorAmount,
                        tx_status = SUCCESS, linkedAuction = Some auctionId,
                        linkedEscrow = Some eid, isFrozen = False\<rparr>,
                       \<lparr>tx_user = esc_vendor e, tx_type = PLATFORM_FEE, tx_amount = platformFee,
                        tx_status = SUCCESS, linkedAuction = Some auctionId,
                        linkedEscrow = Some eid, isFrozen = False\<rparr>]\<rparr>))"

text \<open>
  \<open>markDisputed\<close>: the auction's held escrow becomes \<open>DISPUTED\<close> and the ledger
  entries that name it are frozen.
\<close>

definition markDisputed :: "nat \<Rightarrow> db \<Rightarrow> (error + nat \<times> escrow) \<times> db" where
  "markDisputed auctionId d =
     (case findOne (\<lambda>e. esc_auction e = auctionId \<and> esc_status e = HELD) (escrows d) of
        None \<Rightarrow> (Inl EscrowNotFoundOrReleased, d)
      | Some (eid, e) \<Rightarrow>
          (Inr (eid, e\<lparr>esc_status := DISPUTED\<rparr>),
           d\<lparr>escrows := (escrows d)[eid := e\<lparr>esc_status := DISPUTED\<rparr>],
             ledger := map (\<lambda>t. if linkedEscrow t = Some eid then t\<lparr>isFrozen := True\<rparr> else t)
                         (ledger d)\<rparr>))"

text \<open>
  \<open>partialResolution\<close> (the dispute controller's helper) takes the first escrow of
  the auction, whatever its status; a missing escrow is a \<open>TypeError\<close>. It then
  credits both parties through \<open>User\<close> and records two entries through
  \<open>TokenTransaction\<close>. The dispute controller binds neither name: the helper throws
  at the first credit, before any write. It does not write the escrow.
\<close>

definition partialResolution :: "nat \<Rightarrow> real \<Rightarrow> db \<Rightarrow> (error + unit) \<times> db" where
  "partialResolution auctionId refundRatio d =
     (case findOne (\<lambda>e. esc_auction e = auctionId) (escrows d) of
        None \<Rightarrow> (Inl TypeError, d)
      | Some (eid, e) \<Rightarrow>
          let refundAmount = tokenAmount e * refundRatio;
              vendorAmount = tokenAmount e * (1 - refundRatio)
          in
            if \<not> binds DisputeController User_model then (Inl ReferenceError, d)
            else
              let d1 = d\<lparr>users := credit (esc_vendor e) vendorAmount
                                  (credit (esc_buyer e) refundAmount (users d))\<rparr>
              in
                if \<not> binds DisputeController TokenTransaction_model
                then (Inl ReferenceError, d1)
                else
                  (Inr (),
                   d1\<lparr>ledger := ledger d1 @
                     [\<lparr>tx_user = esc_buyer e, tx_type = DISPUTE_PARTIAL_REFUND,
                       tx_amount = refundAmount, tx_status = SUCCESS,
                       linkedAuction = Some auctionId, linkedEscrow = None, isFrozen = False\<rparr>,
                      \<lparr>tx_user = esc_vendor e, tx_type = DISPUTE_PARTIAL_PAYOUT,
                       tx_amount = vendorAmount, tx_status = SUCCESS,
                       linkedAuction = Some auctionId, linkedEscrow = None,
                       isFrozen = False\<rparr>]\<rparr>))"

section \<open>Delivery confirmation tracker\<close>


text \<open>
  \<open>confirmDelivery\<close>: one transaction for the confirmation's update, the escrow's
  release and the pending fee entry's status; when the release throws, the transaction
  is aborted and the store is as before.
\<close>

definition confirmDelivery :: "int \<Rightarrow> nat \<Rightarrow> nat \<Rightarrow> db \<Rightarrow> (error + unit) \<times> db" where
  "confirmDelivery now auctionId requester d =
     (case findOne (\<lambda>c. dc_auction c = auctionId \<and> dc_buyer c = requester
                        \<and> (dc_status c = SHIPPED \<or> dc_status c = PENDING_DELIVERY))
             (confirmations d) of
        None \<Rightarrow> (Inl NothingToConfirm, d)
      | Some (cid, c) \<Rightarrow>
          let d1 = d\<lparr>confirmations := (confirmations d)
                     [cid := c\<lparr>dc_status := DELIVERED, deliveredAt := Some now\<rparr>]\<rparr>
          in
            (case releaseEscrow now (dc_auction c) d1 of
               Inl e \<Rightarrow> (Inl ConfirmationFailed, d)
             | Inr d2 \<Rightarrow>
                 (Inr (),
                  d2\<lparr>ledger := updateOne
                       (\<lambda>t. linkedAuction t = Some (dc_auction c) \<and> tx_type t = PLATFORM_FEE
                            \<and> tx_status t = PENDING)
                       (\<lambda>t. t\<lparr>tx_status := SUCCESS\<rparr>) (ledger d2)\<rparr>)))"

text \<open>\<open>openDispute\<close> of the delivery controller: no time is read.\<close>

definition openDispute :: "nat \<Rightarrow> nat \<Rightarrow> db \<Rightarrow> (error + nat \<times> confirmation) \<times> db" where
  "openDispute auctionId requester d =
     (case findOne (\<lambda>c. dc_auction c = auctionId \<and> dc_buyer c = requester
                        \<and> dc_status c \<noteq> DELIVERED) (confirmations d) of
        None \<Rightarrow> (Inl CannotDispute, d)
      | Some (cid, c) \<Rightarrow>
          (Inr (cid, c\<lparr>dc_status := DELIVERY_DISPUTED\<rparr>),
           d\<lparr>confirmations := (confirmations d)[cid := c\<lparr>dc_status := DELIVERY_DISPUTED\<rparr>]\<rparr>))"

section \<open>Dispute resolver\<close>

text \<open>
  \<open>raiseDispute\<close>. Its first statement, \<open>mongoose.startSession()\<close>, stands before
  the \<open>try\<close> and reads \<open>mongoose\<close>, which the dispute controller does not bind:
  the handler throws there, sends no response and writes nothing. What follows in the
  handler: the caller must be the buyer or the vendor, the auction's first escrow must
  be \<open>HELD\<close>, and for the buyer the delivery confirmation is read through
  \<open>DeliveryConfirmation\<close> (not bound either; the \<open>ReferenceError\<close> is caught there
  and answered with status 500) for the dispute deadline, which is \<open>deliveredAt\<close>
  moved on by \<open>DISPUTE_WINDOW_DAYS\<close> = 7 days, taken as 7 * 86400000 milliseconds.
  The dispute and the escrow's new status are written in one transaction.
\<close>

definition disputeWindowClosed :: "int \<Rightarrow> nat \<Rightarrow> db \<Rightarrow> bool" where
  "disputeWindowClosed now auctionId d =
     (case findOne (\<lambda>c. dc_auction c = auctionId) (confirmations d) of
        None \<Rightarrow> False
      | Some (cid, c) \<Rightarrow>
          (case deliveredAt c of
             None \<Rightarrow> False
           | Some t \<Rightarrow> t + 7 * 86400000 < now))"

definition raiseDispute :: "int \<Rightarrow> nat \<Rightarrow> nat \<Rightarrow> db \<Rightarrow> (error + nat \<times> dispute) \<times> db" where
  "raiseDispute now auctionId userId d =
     (if \<not> binds DisputeController Mongoose then (Inl ReferenceError, d)
      else case findById (auctions d) auctionId of
        None \<Rightarrow> (Inl AuctionNotFound, d)
      | Some a \<Rightarrow>
          if findById (users d) (vendor a) = None then (Inl DisputeFailed, d)
          else
            let isBuyer = (populate (users d) (highestBidder a) = Some userId);
                isSeller = (vendor a = userId)
            in
              if \<not> isBuyer \<and> \<not> isSeller then (Inl NotAParty, d)
              else
                (case findOne (\<lambda>e. esc_auction e = auctionId) (escrows d) of
                   None \<Rightarrow> (Inl NoEscrowToDispute, d)
                 | Some (eid, e) \<Rightarrow>
                     if esc_status e \<noteq> HELD then (Inl NoEscrowToDispute, d)
                     else if isBuyer \<and> \<not> binds DisputeController DeliveryConfirmation_model
                     then (Inl DisputeFailed, d)
                     else if isBuyer \<and> disputeWindowClosed now auctionId d
                     then (Inl DisputeWindowClosed, d)
                     else
                       (case (if isBuyer then Some (vendor a)
                              else populate (users d) (highestBidder a)) of
                          None \<Rightarrow> (Inl DisputeFailed, d)
                        | Some ag \<Rightarrow>
                            let dp = \<lparr>dp_auction = auctionId, dp_transaction = eid,
                                      raisedBy = userId, against = ag, dp_status = OPEN\<rparr>
                            in (Inr (length (disputes d), dp),
                                d\<lparr>disputes := disputes d @ [dp],
                                  escrows := (escrows d)[eid := e\<lparr>esc_status := DISPUTED\<rparr>]\<rparr>))))"

section \<open>Auction lifecycle\<close>



text \<open>
  \<open>confirmReceipt\<close>: a missing auction or vendor is a \<open>TypeError\<close> inside the
  \<open>try\<close> (status 500); without a \<open>winningBidAmount\<close> the new balance is not a number
  and the save rejects. Nothing but the two documents is read or written.
\<close>

definition confirmReceipt :: "nat \<Rightarrow> nat \<Rightarrow> db \<Rightarrow> (error + unit) \<times> db" where
  "confirmReceipt auctionId requester d =
     (case findById (auctions d) auctionId of
        None \<Rightarrow> (Inl ServerError, d)
      | Some a \<Rightarrow>
          if highestBidder a \<noteq> Some requester then (Inl NotAuctionWinner, d)
          else
            (case findById (users d) (vendor a) of
               None \<Rightarrow> (Inl ServerError, d)
             | Some v \<Rightarrow>
                 (case winningBidAmount a of
                    None \<Rightarrow> (Inl ServerError, d)
                  | Some w \<Rightarrow>
                      (Inr (),
                       d\<lparr>users := (users d)[vendor a := v\<lparr>balance := balance v + w * 0.9\<rparr>],
                         auctions := (auctions d)
                           [auctionId := a\<lparr>winnerConfirmed := True, vendorPaid := True\<rparr>]\<rparr>))))"

text \<open>
  The handler called \<open>n\<close> times in a row by the same requester: the answers, and
  the store after the last call.
\<close>

fun confirmReceipts :: "nat \<Rightarrow> nat \<Rightarrow> nat \<Rightarrow> db \<Rightarrow> (error + unit) list \<times> db" where
  "confirmReceipts 0 auctionId requester d = ([], d)"
| "confirmReceipts (Suc n) auctionId requester d =
     (case confirmReceipt auctionId requester d of
        (res, d') \<Rightarrow>
          (case confirmReceipts n auctionId requester d' of
             (rs, d'') \<Rightarrow> (res # rs, d'')))"

section \<open>Sequences of bid operations\<close>



section \<open>Example states\<close>

definition db_empty :: db where
  "db_empty = \<lparr>users = [], auctions = [], bids = [], escrows = [], confirmations = [],
     disputes = [], ledger = []\<rparr>"

definition auction0 :: auction where
  "auction0 = \<lparr>vendor = 0, startingPrice = 100, currentPrice = 100, highestBidder = None,
     bidCount = 0, endTime = 100000, isActive = True, isDigital = False,
     winningBidAmount = None, endedAt = None, winnerConfirmed = False, vendorPaid = False\<rparr>"

definition bid0 :: bid where
  "bid0 = \<lparr>bid_auction = 0, bidder = 1, amount = 200, bid_status = Bid_active, createdAt = 0,
     isWinningBid = False, flaggedForReview = False, isRetracted = False,
     retractionPenalty = None\<rparr>"

text \<open>
  User 1 has bid 200 on auction 0 of vendor 0: the 200 tokens sit in the escrowed
  balance.
\<close>

definition db_retract :: db where
  "db_retract = db_empty\<lparr>
     users := [\<lparr>balance = 0, escrowedBalance = Some 0\<rparr>,
               \<lparr>balance = 800, escrowedBalance = Some 200\<rparr>],
     auctions := [auction0\<lparr>currentPrice := 200, highestBidder := Some 1, bidCount := 1\<rparr>],
     bids := [Some bid0]\<rparr>"


text \<open>User 1 has 1000 tokens and no bid yet; auction 0 stands at 100.\<close>

definition db_place :: db where
  "db_place = db_empty\<lparr>
     users := [\<lparr>balance = 0, escrowedBalance = Some 0\<rparr>,
               \<lparr>balance = 1000, escrowedBalance = Some 0\<rparr>],
     auctions := [auction0]\<rparr>"


definition escrow0 :: escrow where
  "escrow0 = \<lparr>esc_auction = 0, esc_buyer = 1, esc_vendor = 0, tokenAmount = 1000,
     esc_status = HELD, releaseReason = None, releasedAt = None\<rparr>"

text \<open>
  Auction 0 was closed at 1000 tokens: the escrow is held, the item is shipped, the
  fee entry of the close is pending.
\<close>

definition db_delivery :: db where
  "db_delivery = db_empty\<lparr>
     users := [\<lparr>balance = 0, escrowedBalance = Some 0\<rparr>,
               \<lparr>balance = 0, escrowedBalance = Some 1000\<rparr>],
     auctions := [auction0\<lparr>currentPrice := 1000, highestBidder := Some 1, bidCount := 1,
                    isActive := False, winningBidAmount := Some 1000, endedAt := Some 100000\<rparr>],
     bids := [Some (bid0\<lparr>amount := 1000, isWinningBid := True\<rparr>)],
     escrows := [escrow0],
     confirmations := [\<lparr>dc_auction = 0, dc_vendor = 0, dc_buyer = 1, dc_status = SHIPPED,
                         deliveredAt = None\<rparr>],
     ledger := [\<lparr>tx_user = 1, tx_type = ESCROW_HOLD, tx_amount = 1000, tx_status = SUCCESS,
                  linkedAuction = Some 0, linkedEscrow = Some 0, isFrozen = False\<rparr>,
                \<lparr>tx_user = 0, tx_type = PLATFORM_FEE, tx_amount = 100, tx_status = PENDING,
                  linkedAuction = Some 0, linkedEscrow = None, isFrozen = False\<rparr>]\<rparr>"

text \<open>The buyer has confirmed the delivery at time 150000: the escrow is released.\<close>

definition db_settled :: db where
  "db_settled = snd (confirmDelivery 150000 0 1 db_delivery)"

text \<open>The escrow of auction 0 has been marked disputed.\<close>

definition db_disputed :: db where
  "db_disputed = snd (markDisputed 0 db_delivery)"

text \<open>A delivery recorded at time 150000 while the escrow is still held.\<close>

definition db_delivered_held :: db where
  "db_delivered_held = db_delivery\<lparr>confirmations :=
     [\<lparr>dc_auction = 0, dc_vendor = 0, dc_buyer = 1, dc_status = DELIVERED,
       deliveredAt = Some 150000\<rparr>]\<rparr>"

text \<open>The vendor, user 0, is the highest bidder of the own auction.\<close>

definition db_selfbid :: db where
  "db_selfbid = db_delivery\<lparr>auctions :=
     [auction0\<lparr>currentPrice := 1000, highestBidder := Some 0, bidCount := 1,
        isActive := False, winningBidAmount := Some 1000, endedAt := Some 100000\<rparr>]\<rparr>"


text \<open>
  Auction 0 with two bids: 105 by user 2, who is the highest bidder, and 200 by
  user 1, retracted with a penalty of 20.
\<close>

definition db_winner :: db where
  "db_winner = db_empty\<lparr>
     users := [\<lparr>balance = 0, escrowedBalance = Some 0\<rparr>,
               \<lparr>balance = 980, escrowedBalance = Some 200\<rparr>,
               \<lparr>balance = 895, escrowedBalance = Some 105\<rparr>],
     auctions := [auction0\<lparr>currentPrice := 105, highestBidder := Some 2, bidCount := 2\<rparr>],
     bids := [Some (bid0\<lparr>bidder := 2, amount := 105, createdAt := 1000\<rparr>),
              Some (bid0\<lparr>createdAt := 7000, isRetracted := True,
                          retractionPenalty := Some 20\<rparr>)]\<rparr>"

section \<open>Facts about the queries\<close>

lemmas q_defs = findById_def findBid_def matchingBids_def matching_def findOne_def
  populate_def credit_def updateOne_def binds_def Let_def

lemma matching_set:
  "set (matching P xs) = {(i, xs ! i) | i. i < length xs \<and> P (xs ! i)}"
proof -
  have "set (zip [0 ..< length xs] xs) = {(i, xs ! i) | i. i < length xs}"
  proof (auto simp: set_zip)
    fix i assume "i < length xs"
    then show "\<exists>ia. i = [0..<length xs] ! ia \<and> xs ! i = xs ! ia \<and> ia < length xs"
      by (intro exI[of _ i]) simp
  qed
  then show ?thesis by (auto simp: matching_def)
qed

lemma findOne_None_iff: "findOne P xs = None \<longleftrightarrow> (\<forall>x\<in>set xs. \<not> P x)"
proof -
  have "findOne P xs = None \<longleftrightarrow> matching P xs = []"
    by (simp add: findOne_def split: list.splits)
  also have "\<dots> \<longleftrightarrow> set (matching P xs) = {}" by simp
  also have "\<dots> \<longleftrightarrow> (\<forall>x\<in>set xs. \<not> P x)"
    unfolding matching_set by (fastforce simp: in_set_conv_nth)
  finally show ?thesis .
qed

section \<open>Retraction\<close>

lemma retractBid_success:
  assumes "retractBid now bidId requester d = (Inr r, d')"
  obtains b a u where
    "findBid d bidId = Some b" "bidder b = requester"
    "findById (auctions d) (bid_auction b) = Some a" "now \<le> endTime a"
    "findById (users d) requester = Some u"
    "users d' = (users d)[requester :=
        u\<lparr>balance := balance u + (amount b - max (amount b * 0.1) 0.5)\<rparr>]"
    "r = \<lparr>refunded = amount b - max (amount b * 0.1) 0.5,
          penaltyApplied = max (amount b * 0.1) 0.5\<rparr>"
  using assms
  by (auto simp: retractBid_def Let_def split: option.splits if_splits)

text \<open>
  C3 (as amended). A successful \<open>retractBid\<close> is the bidder's own, not after the
  auction's \<open>endTime\<close>; with penalty = max(amount * 10%, 0.5) it answers
  \<open>amount - penalty\<close> as refunded, and the bidder's account after it is the account
  before it with \<open>balance\<close> increased by exactly \<open>amount - penalty\<close>: the
  \<open>escrowedBalance\<close> is not changed (the code never decreases it).
\<close>

theorem retractBid_refund:
  assumes "retractBid now bidId requester d = (Inr r, d')"
    and "findBid d bidId = Some b"
    and "findById (users d) (bidder b) = Some u"
  shows "bidder b = requester
    \<and> (\<exists>a. findById (auctions d) (bid_auction b) = Some a \<and> now \<le> endTime a)
    \<and> (\<exists>u'. findById (users d') (bidder b) = Some u'
          \<and> balance u' = balance u + (amount b - max (amount b * 0.1) 0.5)
          \<and> escrowedBalance u' = escrowedBalance u)
    \<and> refunded r = amount b - max (amount b * 0.1) 0.5
    \<and> penaltyApplied r = max (amount b * 0.1) 0.5"
proof -
  from assms(1) obtain b0 a u0 where
    b0: "findBid d bidId = Some b0" "bidder b0 = requester"
    and a: "findById (auctions d) (bid_auction b0) = Some a" "now \<le> endTime a"
    and u0: "findById (users d) requester = Some u0"
    and us: "users d' = (users d)[requester :=
        u0\<lparr>balance := balance u0 + (amount b0 - max (amount b0 * 0.1) 0.5)\<rparr>]"
    and r: "r = \<lparr>refunded = amount b0 - max (amount b0 * 0.1) 0.5,
          penaltyApplied = max (amount b0 * 0.1) 0.5\<rparr>"
    by (rule retractBid_success)
  from b0 assms(2) have [simp]: "b0 = b" by simp
  from u0 assms(3) b0 have [simp]: "u0 = u" by simp
  from u0 have len: "requester < length (users d)"
    by (simp add: findById_def split: if_splits)
  have "findById (users d') (bidder b)
      = Some (u\<lparr>balance := balance u + (amount b - max (amount b * 0.1) 0.5)\<rparr>)"
    using us len b0 by (simp add: findById_def)
  with b0 a r show ?thesis by auto
qed

theorem retractBid_refund_witness:
  "fst (retractBid 5 0 1 db_retract) = Inr \<lparr>refunded = 180, penaltyApplied = 20\<rparr>
   \<and> map_option balance (findById (users (snd (retractBid 5 0 1 db_retract))) 1) = Some 980
   \<and> map_option escrowedBalance (findById (users (snd (retractBid 5 0 1 db_retract))) 1)
       = Some (Some 200)"
proof -
  obtain r d' where h: "retractBid 5 0 1 db_retract = (Inr r, d')"
    by (simp add: retractBid_def db_retract_def db_empty_def auction0_def bid0_def
        findBid_def findById_def matchingBids_def Let_def)
  have b: "findBid db_retract 0 = Some bid0"
    by (simp add: findBid_def db_retract_def db_empty_def)
  have u: "findById (users db_retract) (bidder bid0)
      = Some \<lparr>balance = 800, escrowedBalance = Some 200\<rparr>"
    by (simp add: findById_def db_retract_def db_empty_def bid0_def)
  from retractBid_refund [OF h b u] h show ?thesis
    by (cases r) (auto simp: bid0_def)
qed

text \<open>
  C3 as stated fails: the retraction of the bid of 200 succeeds, and the bidder's
  escrowed balance is 200 before it and 200 after it, not 200 less.
\<close>

theorem retractBid_escrow_counterexample:
  "fst (retractBid 5 0 1 db_retract) = Inr \<lparr>refunded = 180, penaltyApplied = 20\<rparr>
   \<and> amount bid0 = 200
   \<and> escrowedBalance (users db_retract ! 1) = Some 200
   \<and> escrowedBalance (users (snd (retractBid 5 0 1 db_retract)) ! 1) = Some 200
   \<and> escrowedBalance (users (snd (retractBid 5 0 1 db_retract)) ! 1) \<noteq> Some (200 - amount bid0)"
  by (simp add: retractBid_def db_retract_def db_empty_def auction0_def bid0_def
      findBid_def findById_def matchingBids_def Let_def)

section \<open>Atomicity of bid placement and of the close\<close>

text \<open>
  C2. A \<open>placeBid\<close> that fails after the debit does not undo the debit:
  \<open>finalizeBidPlacement\<close> throws, the handler deletes the bid and answers status 500,
  but the bidder's balance stays 106 lower and the escrowed balance 106 higher, since
  \<open>escrowBidTokens\<close> saved the account outside any transaction and the \<open>catch\<close> does
  not touch the account.
\<close>

theorem placeBid_debit_not_rolled_back:
  "placeBid (\<lambda>p. p = Auction_save) 1000 0 1 106 db_place =
     (Inl BidFailed,
      db_place\<lparr>users := [\<lparr>balance = 0, escrowedBalance = Some 0\<rparr>,
                          \<lparr>balance = 894, escrowedBalance = Some 106\<rparr>],
                bids := [None]\<rparr>)"
  by (simp add: placeBid_def escrowBidTokens_def finalizeBidPlacement_def cleanupBid_def
      db_place_def db_empty_def auction0_def q_defs)




section \<open>Winner selection\<close>

text \<open>
  C7. \<open>setWinningBid\<close> selects a retracted bid: of the bids of 105 (standing,
  by the highest bidder) and 200 (retracted), the retracted one is marked winning.
\<close>

theorem setWinningBid_selects_retracted:
  "map (map_option (\<lambda>b. (bidder b, amount b, isRetracted b, isWinningBid b))) (bids db_winner)
    = [Some (2, 105, False, False), Some (1, 200, True, False)]
   \<and> map_option highestBidder (findById (auctions db_winner) 0) = Some (Some 2)
   \<and> map (map_option (\<lambda>b. (bidder b, amount b, isRetracted b, isWinningBid b)))
       (bids (snd (setWinningBid 0 db_winner)))
    = [Some (2, 105, False, False), Some (1, 200, True, True)]"
  by (simp add: setWinningBid_def db_winner_def db_empty_def auction0_def bid0_def q_defs)

section \<open>Delivery confirmation\<close>

text \<open>
  C5. The buyer's \<open>confirmDelivery\<close> on the held escrow of 1000 tokens succeeds,
  credits the vendor 900 and releases the escrow; but the ledger then holds two
  \<open>PLATFORM_FEE\<close> entries of 100 with status \<open>SUCCESS\<close> for the auction: the entry
  of the close, flipped from \<open>PENDING\<close>, and a second one that \<open>releaseEscrow\<close>
  creates.
\<close>

theorem confirmDelivery_duplicates_fee:
  "fst (confirmDelivery 150000 0 1 db_delivery) = Inr ()
   \<and> map balance (users (snd (confirmDelivery 150000 0 1 db_delivery))) = [900, 0]
   \<and> map esc_status (escrows (snd (confirmDelivery 150000 0 1 db_delivery))) = [RELEASED]
   \<and> map (\<lambda>t. (tx_type t, tx_amount t, tx_status t, linkedAuction t, linkedEscrow t))
        (ledger db_delivery)
      = [(ESCROW_HOLD, 1000, SUCCESS, Some 0, Some 0),
         (PLATFORM_FEE, 100, PENDING, Some 0, None)]
   \<and> map (\<lambda>t. (tx_type t, tx_amount t, tx_status t, linkedAuction t, linkedEscrow t))
        (ledger (snd (confirmDelivery 150000 0 1 db_delivery)))
      = [(ESCROW_HOLD, 1000, SUCCESS, Some 0, Some 0),
         (PLATFORM_FEE, 100, SUCCESS, Some 0, None),
         (PAYOUT_VENDOR, 900, SUCCESS, Some 0, Some 0),
         (PLATFORM_FEE, 100, SUCCESS, Some 0, Some 0)]"
  by (simp add: confirmDelivery_def releaseEscrow_def db_delivery_def escrow0_def db_empty_def
      auction0_def bid0_def q_defs)

section \<open>Release and refund\<close>

text \<open>
  C4 (as amended). \<open>releaseToVendor\<close> and \<open>refundToBuyer\<close> succeed if and only if
  the auction exists and has an escrow in status \<open>HELD\<close>. On an auction none of
  whose escrows is \<open>HELD\<close> (they are \<open>DISPUTED\<close>, \<open>RELEASED\<close> or \<open>REFUNDED\<close>, or
  there is none) both fail with the error "No active escrow found" and leave the store
  as it was: no balance, escrow or ledger entry changes.
\<close>

theorem release_refund_only_HELD:
  "((\<exists>r d'. releaseToVendor now a d = (Inr r, d')) \<longleftrightarrow>
      (a < length (auctions d)
       \<and> (\<exists>e\<in>set (escrows d). esc_auction e = a \<and> esc_status e = HELD)))
   \<and> ((\<exists>r d'. refundToBuyer now a reason d = (Inr r, d')) \<longleftrightarrow>
      (a < length (auctions d)
       \<and> (\<exists>e\<in>set (escrows d). esc_auction e = a \<and> esc_status e = HELD)))
   \<and> ((\<forall>e\<in>set (escrows d). esc_auction e = a \<longrightarrow> esc_status e \<noteq> HELD) \<longrightarrow>
        releaseToVendor now a d = (Inl NoActiveEscrow, d)
        \<and> refundToBuyer now a reason d = (Inl NoActiveEscrow, d))"
proof -
  let ?P = "\<lambda>e. esc_auction e = a \<and> esc_status e = HELD"
  have none: "findOne ?P (escrows d) = None \<longleftrightarrow> \<not> (\<exists>e\<in>set (escrows d). ?P e)"
    by (simp add: findOne_None_iff)
  have 1: "(\<exists>r d'. releaseToVendor now a d = (Inr r, d')) \<longleftrightarrow>
      (a < length (auctions d) \<and> (\<exists>e\<in>set (escrows d). ?P e))"
    using none
    by (cases "findOne ?P (escrows d)")
       (auto simp: releaseToVendor_def Let_def findById_def split: option.splits prod.splits)
  have 2: "(\<exists>r d'. refundToBuyer now a reason d = (Inr r, d')) \<longleftrightarrow>
      (a < length (auctions d) \<and> (\<exists>e\<in>set (escrows d). ?P e))"
    using none
    by (cases "findOne ?P (escrows d)")
       (auto simp: refundToBuyer_def Let_def findById_def split: option.splits prod.splits)
  have 3: "(\<forall>e\<in>set (escrows d). esc_auction e = a \<longrightarrow> esc_status e \<noteq> HELD) \<longrightarrow>
        releaseToVendor now a d = (Inl NoActiveEscrow, d)
        \<and> refundToBuyer now a reason d = (Inl NoActiveEscrow, d)"
  proof
    assume "\<forall>e\<in>set (escrows d). esc_auction e = a \<longrightarrow> esc_status e \<noteq> HELD"
    then have "findOne ?P (escrows d) = None" using none by auto
    then show "releaseToVendor now a d = (Inl NoActiveEscrow, d)
        \<and> refundToBuyer now a reason d = (Inl NoActiveEscrow, d)"
      by (simp add: releaseToVendor_def refundToBuyer_def)
  qed
  from 1 2 3 show ?thesis by blast
qed

theorem release_refund_only_HELD_witness:
  "(\<exists>r d'. releaseToVendor 160000 0 db_delivery = (Inr r, d'))
   \<and> (\<exists>r d'. refundToBuyer 160000 0 DISPUTE_RESOLVED db_delivery = (Inr r, d'))
   \<and> releaseToVendor 160000 0 db_settled = (Inl NoActiveEscrow, db_settled)
   \<and> refundToBuyer 160000 0 DISPUTE_RESOLVED db_settled = (Inl NoActiveEscrow, db_settled)"
proof -
  have A: "0 < length (auctions db_delivery)
      \<and> (\<exists>e\<in>set (escrows db_delivery). esc_auction e = 0 \<and> esc_status e = HELD)"
    by (simp add: db_delivery_def escrow0_def db_empty_def auction0_def bid0_def)
  have B: "\<forall>e\<in>set (escrows db_settled). esc_auction e = 0 \<longrightarrow> esc_status e \<noteq> HELD"
    by (simp add: db_settled_def confirmDelivery_def releaseEscrow_def db_delivery_def escrow0_def
        db_empty_def auction0_def bid0_def q_defs)
  from A B release_refund_only_HELD [of 160000 0 db_delivery DISPUTE_RESOLVED]
    release_refund_only_HELD [of 160000 0 db_settled DISPUTE_RESOLVED]
  show ?thesis by blast
qed

text \<open>
  C4 as stated fails: on the auction whose escrow is \<open>DISPUTED\<close>, release and
  refund both fail.
\<close>

theorem release_DISPUTED_counterexample:
  "map esc_status (escrows db_disputed) = [DISPUTED]
   \<and> releaseToVendor 160000 0 db_disputed = (Inl NoActiveEscrow, db_disputed)
   \<and> refundToBuyer 160000 0 DISPUTE_RESOLUTION db_disputed = (Inl NoActiveEscrow, db_disputed)"
  by (simp add: db_disputed_def markDisputed_def releaseToVendor_def refundToBuyer_def
      db_delivery_def escrow0_def db_empty_def auction0_def bid0_def q_defs)

section \<open>Partial resolution\<close>

text \<open>
  C8. \<open>partialResolution\<close> with ratio 1/2 on the disputed escrow of 1000 tokens
  credits nobody, records nothing and leaves the escrow \<open>DISPUTED\<close>: it throws a
  \<open>ReferenceError\<close> at its first credit, and the store after the call is the store
  before it.
\<close>

theorem partialResolution_throws:
  "map (\<lambda>e. (esc_buyer e, esc_vendor e, tokenAmount e, esc_status e)) (escrows db_disputed)
     = [(1, 0, 1000, DISPUTED)]
   \<and> map balance (users db_disputed) = [0, 0]
   \<and> partialResolution 0 (1 / 2) db_disputed = (Inl ReferenceError, db_disputed)"
  by (simp add: partialResolution_def db_disputed_def markDisputed_def db_delivery_def
      escrow0_def db_empty_def auction0_def bid0_def q_defs)

section \<open>The dispute window\<close>

text \<open>
  C6. On the auction delivered at time 150000 whose escrow is \<open>HELD\<close>, the buyer's
  \<open>raiseDispute\<close> on day 6 does not succeed and the one on day 8 does not fail for
  the window; on the auction not yet delivered the buyer's dispute does not succeed
  either. Each call throws a \<open>ReferenceError\<close> on the handler's first statement; no
  dispute is stored and the escrow stays \<open>HELD\<close>.
\<close>

theorem raiseDispute_throws:
  "map esc_status (escrows db_delivered_held) = [HELD]
   \<and> map deliveredAt (confirmations db_delivered_held) = [Some 150000]
   \<and> raiseDispute (150000 + 6 * 86400000) 0 1 db_delivered_held
       = (Inl ReferenceError, db_delivered_held)
   \<and> raiseDispute (150000 + 8 * 86400000) 0 1 db_delivered_held
       = (Inl ReferenceError, db_delivered_held)
   \<and> map deliveredAt (confirmations db_delivery) = [None]
   \<and> raiseDispute 120000 0 1 db_delivery = (Inl ReferenceError, db_delivery)"
  by (simp add: raiseDispute_def db_delivered_held_def db_delivery_def escrow0_def db_empty_def
      auction0_def bid0_def q_defs)

section \<open>Receipt confirmed by the winner\<close>

lemma confirmReceipt_once:
  assumes "findById (auctions d) a = Some au"
    and "highestBidder au = Some requester"
    and "findById (users d) (vendor au) = Some v"
    and "winningBidAmount au = Some w"
  shows "confirmReceipt a requester d =
    (Inr (), d\<lparr>users := (users d)[vendor au := v\<lparr>balance := balance v + w * 0.9\<rparr>],
               auctions := (auctions d)[a := au\<lparr>winnerConfirmed := True, vendorPaid := True\<rparr>]\<rparr>)"
  using assms by (simp add: confirmReceipt_def)

lemma confirmReceipts_many:
  assumes "findById (auctions d) a = Some au"
    and "highestBidder au = Some requester"
    and "findById (users d) (vendor au) = Some v"
    and "winningBidAmount au = Some w"
  shows "fst (confirmReceipts n a requester d) = replicate n (Inr ())
    \<and> users (snd (confirmReceipts n a requester d))
        = (users d)[vendor au := v\<lparr>balance := balance v + real n * (w * 0.9)\<rparr>]
    \<and> escrows (snd (confirmReceipts n a requester d)) = escrows d
    \<and> confirmations (snd (confirmReceipts n a requester d)) = confirmations d
    \<and> ledger (snd (confirmReceipts n a requester d)) = ledger d
    \<and> bids (snd (confirmReceipts n a requester d)) = bids d
    \<and> disputes (snd (confirmReceipts n a requester d)) = disputes d"
  using assms
proof (induction n arbitrary: d au v)
  case 0
  then show ?case by (auto simp: findById_def split: if_splits)
next
  case (Suc n)
  let ?d1 = "d\<lparr>users := (users d)[vendor au := v\<lparr>balance := balance v + w * 0.9\<rparr>],
               auctions := (auctions d)[a := au\<lparr>winnerConfirmed := True, vendorPaid := True\<rparr>]\<rparr>"
  let ?au1 = "au\<lparr>winnerConfirmed := True, vendorPaid := True\<rparr>"
  let ?v1 = "v\<lparr>balance := balance v + w * 0.9\<rparr>"
  have step: "confirmReceipt a requester d = (Inr (), ?d1)"
    using Suc.prems by (rule confirmReceipt_once)
  have a1: "findById (auctions ?d1) a = Some ?au1"
    using Suc.prems(1) by (auto simp: findById_def split: if_splits)
  have v1: "findById (users ?d1) (vendor ?au1) = Some ?v1"
    using Suc.prems(3) by (auto simp: findById_def split: if_splits)
  have IH: "fst (confirmReceipts n a requester ?d1) = replicate n (Inr ())
    \<and> users (snd (confirmReceipts n a requester ?d1))
        = (users ?d1)[vendor ?au1 := ?v1\<lparr>balance := balance ?v1 + real n * (w * 0.9)\<rparr>]
    \<and> escrows (snd (confirmReceipts n a requester ?d1)) = escrows ?d1
    \<and> confirmations (snd (confirmReceipts n a requester ?d1)) = confirmations ?d1
    \<and> ledger (snd (confirmReceipts n a requester ?d1)) = ledger ?d1
    \<and> bids (snd (confirmReceipts n a requester ?d1)) = bids ?d1
    \<and> disputes (snd (confirmReceipts n a requester ?d1)) = disputes ?d1"
    using Suc.prems(2,4) by (intro Suc.IH[OF a1 _ v1]) simp_all
  have bal: "?v1\<lparr>balance := balance ?v1 + real n * (w * 0.9)\<rparr>
      = v\<lparr>balance := balance v + real (Suc n) * (w * 0.9)\<rparr>"
    by (simp add: algebra_simps)
  have unfold: "confirmReceipts (Suc n) a requester d
      = (Inr () # fst (confirmReceipts n a requester ?d1), snd (confirmReceipts n a requester ?d1))"
    by (simp add: step split_beta)
  have us: "users (snd (confirmReceipts n a requester ?d1))
      = (users d)[vendor au := v\<lparr>balance := balance v + real (Suc n) * (w * 0.9)\<rparr>]"
    using IH unfolding bal by simp
  show ?case
    unfolding unfold using IH us by simp
qed

text \<open>
  C10 (as amended). Let the requester be the highest bidder of an auction with a
  \<open>winningBidAmount\<close> w and an existing vendor. Then \<open>confirmReceipt\<close> succeeds and
  changes nothing but the vendor's balance, which grows by 0.9 * w, and the auction's
  two flags; and it does so at every call: after n calls in a row all n have
  succeeded, the vendor's balance has grown by n * 0.9 * w, every other account is as
  it was (the buyer's, when the buyer is not the vendor), and the escrows, the
  delivery confirmations, the ledger, the bids and the disputes are unchanged.
\<close>

theorem confirmReceipt_pays_vendor:
  assumes "findById (auctions d) a = Some au"
    and "highestBidder au = Some requester"
    and "findById (users d) (vendor au) = Some v"
    and "winningBidAmount au = Some w"
  shows "confirmReceipt a requester d =
      (Inr (), d\<lparr>users := (users d)[vendor au := v\<lparr>balance := balance v + w * 0.9\<rparr>],
                 auctions := (auctions d)
                   [a := au\<lparr>winnerConfirmed := True, vendorPaid := True\<rparr>]\<rparr>)
    \<and> (\<forall>n. fst (confirmReceipts n a requester d) = replicate n (Inr ())
          \<and> users (snd (confirmReceipts n a requester d))
              = (users d)[vendor au := v\<lparr>balance := balance v + real n * (w * 0.9)\<rparr>]
          \<and> escrows (snd (confirmReceipts n a requester d)) = escrows d
          \<and> confirmations (snd (confirmReceipts n a requester d)) = confirmations d
          \<and> ledger (snd (confirmReceipts n a requester d)) = ledger d
          \<and> bids (snd (confirmReceipts n a requester d)) = bids d
          \<and> disputes (snd (confirmReceipts n a requester d)) = disputes d)"
  using confirmReceipt_once [OF assms] confirmReceipts_many [OF assms] by blast

theorem confirmReceipt_pays_vendor_witness:
  "fst (confirmReceipt 0 1 db_delivery) = Inr ()
   \<and> fst (confirmReceipts 2 0 1 db_delivery) = [Inr (), Inr ()]
   \<and> users (snd (confirmReceipts 2 0 1 db_delivery))
      = [\<lparr>balance = 1800, escrowedBalance = Some 0\<rparr>,
         \<lparr>balance = 0, escrowedBalance = Some 1000\<rparr>]
   \<and> ledger (snd (confirmReceipts 2 0 1 db_delivery)) = ledger db_delivery
   \<and> escrows (snd (confirmReceipts 2 0 1 db_delivery)) = [escrow0]"
proof -
  let ?au = "auction0\<lparr>currentPrice := 1000, highestBidder := Some 1, bidCount := 1,
                    isActive := False, winningBidAmount := Some 1000, endedAt := Some 100000\<rparr>"
  have 1: "findById (auctions db_delivery) 0 = Some ?au"
    by (simp add: db_delivery_def escrow0_def db_empty_def auction0_def bid0_def q_defs)
  have 2: "highestBidder ?au = Some 1" by simp
  have 3: "findById (users db_delivery) (vendor ?au)
      = Some \<lparr>balance = 0, escrowedBalance = Some 0\<rparr>"
    by (simp add: db_delivery_def escrow0_def db_empty_def auction0_def bid0_def q_defs)
  have 4: "winningBidAmount ?au = Some 1000" by simp
  have 5: "users db_delivery = [\<lparr>balance = 0, escrowedBalance = Some 0\<rparr>,
         \<lparr>balance = 0, escrowedBalance = Some 1000\<rparr>]" "escrows db_delivery = [escrow0]"
    "vendor ?au = 0"
    by (simp_all add: db_delivery_def escrow0_def db_empty_def auction0_def bid0_def)
  have 6: "replicate 2 (Inr ()) = [Inr (), Inr () :: error + unit]"
    by (simp add: numeral_2_eq_2)
  from confirmReceipt_pays_vendor [OF 1 2 3 4] have
    a: "fst (confirmReceipt 0 1 db_delivery) = Inr ()"
    and b: "fst (confirmReceipts 2 0 1 db_delivery) = replicate 2 (Inr ())
          \<and> users (snd (confirmReceipts 2 0 1 db_delivery))
              = (users db_delivery)[vendor ?au :=
                  \<lparr>balance = 0, escrowedBalance = Some 0\<rparr>\<lparr>balance := 0 + real 2 * (1000 * 0.9)\<rparr>]
          \<and> escrows (snd (confirmReceipts 2 0 1 db_delivery)) = escrows db_delivery
          \<and> ledger (snd (confirmReceipts 2 0 1 db_delivery)) = ledger db_delivery"
    by simp_all
  from a b show ?thesis unfolding 5 6 by simp
qed

text \<open>
  C10 as stated fails where the buyer is the vendor: nothing keeps a vendor from
  bidding on the own auction, and then the call changes the buyer's balance, from 0
  to 900.
\<close>

theorem confirmReceipt_self_bid_counterexample:
  "highestBidder (auctions db_selfbid ! 0) = Some 0
   \<and> vendor (auctions db_selfbid ! 0) = 0
   \<and> balance (users db_selfbid ! 0) = 0
   \<and> fst (confirmReceipt 0 0 db_selfbid) = Inr ()
   \<and> balance (users (snd (confirmReceipt 0 0 db_selfbid)) ! 0) = 900"
  by (simp add: confirmReceipt_def db_selfbid_def db_delivery_def escrow0_def db_empty_def
      auction0_def bid0_def q_defs)

section \<open>Bid monotonicity\<close>




end
